theory Spec2Isabelle
  imports Main
begin

section \<open>The OPC UA command-line client: values, exceptions and events\<close>

text \<open>
  The program is one Python module, \<^verbatim>\<open>opcua-client.py\<close>: a value-conversion helper
  \<^verbatim>\<open>convert_value_to_node_type\<close>, the coroutine \<^verbatim>\<open>main\<close> and the script block that
  builds the endpoint URL from the parsed command line. Everything behind
  \<^verbatim>\<open>asyncua.Client\<close> (the session, the node requests) is outside the module; it is
  modelled as an arbitrary environment that answers each call with a result or with an
  exception. A run of the program is the list of the calls it makes on the client,
  interleaved with the lines it logs, together with the way \<^verbatim>\<open>main\<close> ends.

  A Python \<^verbatim>\<open>str\<close> is a list of code points; the model covers the code points below 256,
  one \<^typ>\<open>char\<close> each.
\<close>

subsection \<open>The data type tag of a node\<close>

text \<open>The members of \<^verbatim>\<open>asyncua.ua.VariantType\<close>, in the order of the enumeration.\<close>

datatype VariantType =
    Null | Boolean | SByte | Byte | Int16 | UInt16 | Int32 | UInt32 | Int64 | UInt64
  | Float | Double | String | DateTime | Guid | ByteString | XmlElement | NodeId
  | ExpandedNodeId | StatusCode | QualifiedName | LocalizedText | ExtensionObject
  | DataValue | Variant | DiagnosticInfo

subsection \<open>Python values\<close>

text \<open>
  The values the program handles: what the conversion helper produces (\<^verbatim>\<open>int\<close>,
  \<^verbatim>\<open>float\<close>, \<^verbatim>\<open>bool\<close>, \<^verbatim>\<open>str\<close>) and what a node read may return besides
  those (\<^verbatim>\<open>None\<close>, or some other object, kept opaque). The type \<open>'f\<close> stands for
  Python's \<^verbatim>\<open>float\<close>: the program only parses floats and compares them, and both
  operations are parameters of the model (record \<open>python\<close> below).
\<close>

datatype 'f pyval =
    PyInt int
  | PyFloat 'f
  | PyBool bool
  | PyStr string
  | PyNone
  | PyOther nat

subsection \<open>Exceptions\<close>

text \<open>
  What a \<^verbatim>\<open>ValueError\<close> says. The first three come from the module and from the
  built-in \<^verbatim>\<open>int\<close> and \<^verbatim>\<open>float\<close>; the last is a \<^verbatim>\<open>ValueError\<close> raised inside the
  client library.
\<close>

datatype value_error =
    Unsupported_data_type VariantType
  | Invalid_literal_for_int string
  | Exceeds_int_digit_limit nat nat
  | Could_not_convert_to_float string
  | Library_value_error string

text \<open>
  The handlers of \<^verbatim>\<open>main\<close> tell three classes apart: \<^verbatim>\<open>ValueError\<close> (and its
  subclasses), any other subclass of \<^verbatim>\<open>Exception\<close>, and a \<^verbatim>\<open>BaseException\<close> that is
  not an \<^verbatim>\<open>Exception\<close> (\<^verbatim>\<open>KeyboardInterrupt\<close>, \<^verbatim>\<open>asyncio.CancelledError\<close>), which no
  handler of the module catches.
\<close>

datatype exn =
    ValueError value_error
  | OtherException string
  | NonException string

subsection \<open>Calls on the client and log lines\<close>

datatype 'f call =
    New_Client string
  | Set_User string
  | Set_Password string
  | Connect
  | Get_Node string
  | Read_Data_Type
  | Write_Value "'f pyval"
  | Read_Value
  | Disconnect

text \<open>
  The requests that go to the server. Creating the client object, storing the
  credentials in it and creating a node object are local.
\<close>

fun is_network :: "'f call \<Rightarrow> bool" where
  "is_network Connect = True"
| "is_network Read_Data_Type = True"
| "is_network (Write_Value v) = True"
| "is_network Read_Value = True"
| "is_network Disconnect = True"
| "is_network (New_Client url) = False"
| "is_network (Set_User u) = False"
| "is_network (Set_Password p) = False"
| "is_network (Get_Node n) = False"

datatype level = INFO | WARNING | ERROR

text \<open>One constructor for each message the module logs, with the values it formats in.\<close>

datatype 'f message =
    Userpass_credentials_required
  | Invalid_authentication_type
  | Connected
  | Value_of_node string "'f pyval"
  | Value_required_for_write
  | Attempting_to_write "'f pyval" string
  | Updated_value string "'f pyval"
  | Verified string "'f pyval"
  | Verification_failed "'f pyval" "'f pyval"
  | Value_conversion_error value_error
  | Error_while_writing exn
  | Invalid_operation
  | Error_occurred exn
  | Disconnected

datatype 'f event = Call "'f call" | Log level "'f message"

subsection \<open>The environment\<close>

text \<open>
  The parameters of the Python interpreter the program depends on:
  \<^verbatim>\<open>sys.get_int_max_str_digits()\<close> (0 switches the limit off, and stands for an
  interpreter that has no such limit), the built-in
  \<^verbatim>\<open>float\<close> on a string (\<open>None\<close> when it raises \<^verbatim>\<open>ValueError\<close>), and \<^verbatim>\<open>==\<close> between
  two floats and between a float and an integer.
\<close>

record 'f python =
  int_max_str_digits :: nat
  float_of_str :: "string \<Rightarrow> 'f option"
  float_eq :: "'f \<Rightarrow> 'f \<Rightarrow> bool"
  float_eq_int :: "'f \<Rightarrow> int \<Rightarrow> bool"

text \<open>
  How the client library and the server behind it answer during one invocation:
  \<open>None\<close> or \<open>Inr\<close> is a normal return, \<open>Some\<close> or \<open>Inl\<close> the exception raised.
  A read is answered knowing what this invocation wrote before it, if anything.
  The constructor \<^verbatim>\<open>Client(url)\<close> parses the URL and raises when it cannot (for
  \<^verbatim>\<open>opc.tcp://[x:4840/\<close> it raises \<^verbatim>\<open>ValueError\<close>, "Invalid IPv6 URL"); its outcome
  is the first field. The setters \<^verbatim>\<open>set_user\<close> and \<^verbatim>\<open>set_password\<close> only store a
  string and are taken not to raise.
\<close>

record 'f server =
  new_client_result :: "exn option"
  connect_result :: "exn option"
  get_node_result :: "exn option"
  read_data_type_result :: "exn + VariantType"
  write_value_result :: "'f pyval \<Rightarrow> exn option"
  read_value_result :: "'f pyval option \<Rightarrow> exn + 'f pyval"
  disconnect_result :: "exn option"

section \<open>Python built-ins\<close>

subsection \<open>\<^verbatim>\<open>int(s)\<close> on a string\<close>

text \<open>
  CPython's \<^verbatim>\<open>PyLong_FromString\<close> with base 10: white space, an optional sign, decimal
  digits with single underscores between them, white space. The digit limit is checked
  after the digits are scanned and before the rest of the string is looked at.
\<close>

definition is_space :: "char \<Rightarrow> bool" where
  "is_space c \<longleftrightarrow> (of_char c :: nat) \<in> set [9, 10, 11, 12, 13, 32, 133, 160]"

definition is_digit :: "char \<Rightarrow> bool" where
  "is_digit c \<longleftrightarrow> 48 \<le> (of_char c :: nat) \<and> (of_char c :: nat) \<le> 57"

definition digit_value :: "char \<Rightarrow> int" where
  "digit_value c = int (of_char c) - 48"

definition is_digit_or_underscore :: "char \<Rightarrow> bool" where
  "is_digit_or_underscore c \<longleftrightarrow> is_digit c \<or> c = CHR ''_''"

fun double_underscore :: "string \<Rightarrow> bool" where
  "double_underscore (a # b # cs) =
     ((a = CHR ''_'' \<and> b = CHR ''_'') \<or> double_underscore (b # cs))"
| "double_underscore cs = False"

definition decimal_value :: "string \<Rightarrow> int" where
  "decimal_value ds = foldl (\<lambda>a c. 10 * a + digit_value c) 0 ds"

definition py_int :: "nat \<Rightarrow> string \<Rightarrow> value_error + int" where
  "py_int max_digits s =
     (let s1 = dropWhile is_space s;
          negative = (s1 \<noteq> [] \<and> hd s1 = CHR ''-'');
          s2 = (if s1 \<noteq> [] \<and> (hd s1 = CHR ''+'' \<or> hd s1 = CHR ''-'') then tl s1 else s1);
          body = takeWhile is_digit_or_underscore s2;
          rest = dropWhile is_digit_or_underscore s2;
          ds = filter is_digit body
      in if body \<noteq> [] \<and> hd body = CHR ''_'' then Inl (Invalid_literal_for_int s)
         else if double_underscore body then Inl (Invalid_literal_for_int s)
         else if body \<noteq> [] \<and> last body = CHR ''_'' then Inl (Invalid_literal_for_int s)
         else if 640 < length ds \<and> 0 < max_digits \<and> max_digits < length ds
           then Inl (Exceeds_int_digit_limit max_digits (length ds))
         else if ds = [] then Inl (Invalid_literal_for_int s)
         else if dropWhile is_space rest \<noteq> [] then Inl (Invalid_literal_for_int s)
         else Inr ((if negative then - 1 else 1) * decimal_value ds))"

subsection \<open>\<^verbatim>\<open>str(n)\<close> on an integer\<close>

fun decimal_digits :: "nat \<Rightarrow> string" where
  "decimal_digits n =
     (if n < 10 then [''0123456789'' ! n]
      else decimal_digits (n div 10) @ [''0123456789'' ! (n mod 10)])"

declare decimal_digits.simps [simp del]

definition py_str_int :: "int \<Rightarrow> string" where
  "py_str_int n = (if n < 0 then CHR ''-'' # decimal_digits (nat (- n)) else decimal_digits (nat n))"

subsection \<open>Truth value and equality\<close>

text \<open>The truth value of an argument that is a string or \<^verbatim>\<open>None\<close>.\<close>

fun truthy :: "string option \<Rightarrow> bool" where
  "truthy None = False"
| "truthy (Some s) = (s \<noteq> [])"

text \<open>
  \<^verbatim>\<open>a == b\<close>. Numbers compare by value, a \<^verbatim>\<open>bool\<close> being the integer 0 or 1;
  strings compare with strings; \<^verbatim>\<open>None\<close> equals only itself; an opaque object is
  equal to none of the other kinds and is compared with another one by its token.
\<close>

fun py_eq :: "'f python \<Rightarrow> 'f pyval \<Rightarrow> 'f pyval \<Rightarrow> bool" where
  "py_eq py (PyInt a) y =
     (case y of PyInt b \<Rightarrow> a = b | PyBool b \<Rightarrow> a = of_bool b
              | PyFloat g \<Rightarrow> float_eq_int py g a | PyStr t \<Rightarrow> False
              | PyNone \<Rightarrow> False | PyOther k \<Rightarrow> False)"
| "py_eq py (PyBool a) y =
     (case y of PyInt b \<Rightarrow> of_bool a = b | PyBool b \<Rightarrow> a = b
              | PyFloat g \<Rightarrow> float_eq_int py g (of_bool a) | PyStr t \<Rightarrow> False
              | PyNone \<Rightarrow> False | PyOther k \<Rightarrow> False)"
| "py_eq py (PyFloat f) y =
     (case y of PyInt b \<Rightarrow> float_eq_int py f b | PyBool b \<Rightarrow> float_eq_int py f (of_bool b)
              | PyFloat g \<Rightarrow> float_eq py f g | PyStr t \<Rightarrow> False
              | PyNone \<Rightarrow> False | PyOther k \<Rightarrow> False)"
| "py_eq py (PyStr s) y = (y = PyStr s)"
| "py_eq py PyNone y = (y = PyNone)"
| "py_eq py (PyOther k) y = (y = PyOther k)"

section \<open>The program\<close>

subsection \<open>Statements that may raise or return\<close>

text \<open>
  A piece of the program ends normally with a value, raises an exception, or executes
  \<^verbatim>\<open>return\<close> (the module only returns \<^verbatim>\<open>None\<close> early); it emits events on the way.
\<close>

datatype 'a completion = Normal 'a | Raise exn | Return

type_synonym ('f, 'a) run = "'a completion \<times> 'f event list"

text \<open>Sequencing: the rest runs only after a normal end.\<close>

definition and_then :: "('f, 'a) run \<Rightarrow> ('a \<Rightarrow> ('f, 'b) run) \<Rightarrow> ('f, 'b) run" where
  "and_then m k =
     (case m of
        (Normal a, t) \<Rightarrow> (case k a of (r, t') \<Rightarrow> (r, t @ t'))
      | (Raise e, t) \<Rightarrow> (Raise e, t)
      | (Return, t) \<Rightarrow> (Return, t))"

text \<open>A call on the client that returns nothing, and one that returns a value.\<close>

definition call :: "'f call \<Rightarrow> exn option \<Rightarrow> ('f, unit) run" where
  "call c answer = (case answer of None \<Rightarrow> (Normal (), [Call c]) | Some e \<Rightarrow> (Raise e, [Call c]))"

definition call_value :: "'f call \<Rightarrow> exn + 'a \<Rightarrow> ('f, 'a) run" where
  "call_value c answer = (case answer of Inr v \<Rightarrow> (Normal v, [Call c]) | Inl e \<Rightarrow> (Raise e, [Call c]))"

definition log :: "level \<Rightarrow> 'f message \<Rightarrow> ('f, unit) run" where
  "log l m = (Normal (), [Log l m])"

text \<open>
  \<^verbatim>\<open>try: body except ...: handler\<close>. The handler function gives the clause that
  matches the exception, \<open>None\<close> when no clause does and the exception goes on.
\<close>

definition try_except :: "('f, 'a) run \<Rightarrow> (exn \<Rightarrow> ('f, 'a) run option) \<Rightarrow> ('f, 'a) run" where
  "try_except body handler =
     (case body of
        (Raise e, t) \<Rightarrow>
          (case handler e of
             Some h \<Rightarrow> (case h of (r, t') \<Rightarrow> (r, t @ t'))
           | None \<Rightarrow> (Raise e, t))
      | (Normal a, t) \<Rightarrow> (Normal a, t)
      | (Return, t) \<Rightarrow> (Return, t))"

text \<open>
  \<^verbatim>\<open>try: body finally: cleanup\<close>. The cleanup runs however the body ended; the body's
  end stands unless the cleanup itself raises or returns.
\<close>

definition try_finally :: "('f, 'a) run \<Rightarrow> ('f, unit) run \<Rightarrow> ('f, 'a) run" where
  "try_finally body cleanup =
     (case body of (r, t) \<Rightarrow>
        (case cleanup of
           (Normal u, t') \<Rightarrow> (r, t @ t')
         | (Raise e, t') \<Rightarrow> (Raise e, t @ t')
         | (Return, t') \<Rightarrow> (Return, t @ t')))"

subsection \<open>\<^verbatim>\<open>convert_value_to_node_type\<close>\<close>

definition raise_or_value :: "value_error + 'a \<Rightarrow> ('f, 'a) run" where
  "raise_or_value r = (case r of Inl ve \<Rightarrow> (Raise (ValueError ve), []) | Inr v \<Rightarrow> (Normal v, []))"

definition py_float :: "'f python \<Rightarrow> string \<Rightarrow> value_error + 'f" where
  "py_float py s =
     (case float_of_str py s of None \<Rightarrow> Inl (Could_not_convert_to_float s) | Some x \<Rightarrow> Inr x)"

definition convert_value_to_node_type ::
    "'f python \<Rightarrow> 'f server \<Rightarrow> string \<Rightarrow> ('f, 'f pyval) run" where
  "convert_value_to_node_type py srv value =
     and_then (call_value Read_Data_Type (read_data_type_result srv)) (\<lambda>data_type.
       if data_type \<in> set [Int16, Int32, Int64] then
         raise_or_value (map_sum id PyInt (py_int (int_max_str_digits py) value))
       else if data_type \<in> set [Float, Double] then
         raise_or_value (map_sum id PyFloat (py_float py value))
       else if data_type = Boolean then
         raise_or_value (map_sum id (\<lambda>n. PyBool (n \<noteq> 0)) (py_int (int_max_str_digits py) value))
       else if data_type = String then
         (Normal (PyStr value), [])
       else
         (Raise (ValueError (Unsupported_data_type data_type)), []))"

subsection \<open>\<^verbatim>\<open>main\<close>\<close>

text \<open>The two \<^verbatim>\<open>except\<close> clauses around the write and the one around the whole session.\<close>

fun write_handler :: "exn \<Rightarrow> ('f, unit) run option" where
  "write_handler (ValueError ve) = Some (log ERROR (Value_conversion_error ve))"
| "write_handler (OtherException m) = Some (log ERROR (Error_while_writing (OtherException m)))"
| "write_handler (NonException m) = None"

fun session_handler :: "exn \<Rightarrow> ('f, unit) run option" where
  "session_handler (ValueError ve) = Some (log ERROR (Error_occurred (ValueError ve)))"
| "session_handler (OtherException m) = Some (log ERROR (Error_occurred (OtherException m)))"
| "session_handler (NonException m) = None"

text \<open>Lines 30 to 39: the credentials are stored in the client, or the function returns.\<close>

definition authenticate :: "string \<Rightarrow> string option \<Rightarrow> string option \<Rightarrow> ('f, unit) run" where
  "authenticate auth_type username password =
     (if auth_type = ''userpass'' then
        (if truthy username \<and> truthy password then
           and_then (call (Set_User (the username)) None) (\<lambda>_.
           call (Set_Password (the password)) None)
         else
           and_then (log ERROR Userpass_credentials_required) (\<lambda>_. (Return, [])))
      else if auth_type \<noteq> ''anonymous'' then
        and_then (log ERROR Invalid_authentication_type) (\<lambda>_. (Return, []))
      else (Normal (), []))"

text \<open>Lines 54 to 65: the body of the inner \<^verbatim>\<open>try\<close>.\<close>

definition write_and_verify ::
    "'f python \<Rightarrow> 'f server \<Rightarrow> string \<Rightarrow> string \<Rightarrow> ('f, unit) run" where
  "write_and_verify py srv node_id value =
     and_then (convert_value_to_node_type py srv value) (\<lambda>converted_value.
     and_then (log INFO (Attempting_to_write converted_value node_id)) (\<lambda>_.
     and_then (call (Write_Value converted_value) (write_value_result srv converted_value)) (\<lambda>_.
     and_then (log INFO (Updated_value node_id converted_value)) (\<lambda>_.
     and_then (call_value Read_Value (read_value_result srv (Some converted_value))) (\<lambda>new_value.
       if py_eq py new_value converted_value then
         log INFO (Verified node_id new_value)
       else
         log WARNING (Verification_failed converted_value new_value))))))"

text \<open>Lines 42 to 71: the body of the outer \<^verbatim>\<open>try\<close>.\<close>

definition session ::
    "'f python \<Rightarrow> 'f server \<Rightarrow> string \<Rightarrow> string \<Rightarrow> string option \<Rightarrow> ('f, unit) run" where
  "session py srv operation node_id value =
     and_then (call Connect (connect_result srv)) (\<lambda>_.
     and_then (log INFO Connected) (\<lambda>_.
       if operation = ''read'' then
         and_then (call (Get_Node node_id) (get_node_result srv)) (\<lambda>_.
         and_then (call_value Read_Value (read_value_result srv None)) (\<lambda>v.
         log INFO (Value_of_node node_id v)))
       else if operation = ''write'' then
         (case value of
            None \<Rightarrow> and_then (log ERROR Value_required_for_write) (\<lambda>_. (Return, []))
          | Some raw_value \<Rightarrow>
              and_then (call (Get_Node node_id) (get_node_result srv)) (\<lambda>_.
              try_except (write_and_verify py srv node_id raw_value) write_handler))
       else
         log ERROR Invalid_operation))"

text \<open>
  The whole coroutine. What it gives back is \<open>Normal ()\<close> when it returns (at its end or
  by a \<^verbatim>\<open>return\<close>) and \<open>Raise e\<close> when the exception \<open>e\<close> leaves it. The
  constructor call of line 28 stands before the credential check and outside every
  \<^verbatim>\<open>try\<close>: an exception it raises leaves \<^verbatim>\<open>main\<close> at once.
\<close>

definition returned :: "('f, unit) run \<Rightarrow> ('f, unit) run" where
  "returned r = (case r of (Return, t) \<Rightarrow> (Normal (), t) | (c, t) \<Rightarrow> (c, t))"

definition main ::
    "'f python \<Rightarrow> 'f server \<Rightarrow> string \<Rightarrow> string \<Rightarrow> string option \<Rightarrow> string option
      \<Rightarrow> string \<Rightarrow> string \<Rightarrow> string option \<Rightarrow> ('f, unit) run" where
  "main py srv opc_ua_server_url auth_type username password operation node_id value =
     returned
       (and_then (call (New_Client opc_ua_server_url) (new_client_result srv)) (\<lambda>_.
        and_then (authenticate auth_type username password) (\<lambda>_.
        try_finally
          (try_except (session py srv operation node_id value) session_handler)
          (and_then (call Disconnect (disconnect_result srv)) (\<lambda>_. log INFO Disconnected)))))"

subsection \<open>The script\<close>

text \<open>
  The namespace \<^verbatim>\<open>parse_args\<close> hands over; an option that was not given is \<^verbatim>\<open>None\<close>.
  The fields that \<^verbatim>\<open>main\<close> takes as parameters of the same name carry the prefix
  \<open>args_\<close>.
\<close>

record args =
  hostname :: string
  port :: int
  path :: string
  args_auth_type :: string
  args_username :: "string option"
  args_password :: "string option"
  args_operation :: string
  args_node_id :: string
  args_value :: "string option"

definition opc_ua_server_url :: "args \<Rightarrow> string" where
  "opc_ua_server_url a = ''opc.tcp://'' @ hostname a @ '':'' @ py_str_int (port a) @ path a"

definition script :: "'f python \<Rightarrow> 'f server \<Rightarrow> args \<Rightarrow> ('f, unit) run" where
  "script py srv a =
     main py srv (opc_ua_server_url a) (args_auth_type a) (args_username a) (args_password a)
       (args_operation a) (args_node_id a) (args_value a)"

text \<open>
  Lines 80 to 91. The command line is taken as the values given to each of the nine
  options, in the order they appear (an option may be repeated; none is the empty list).
  How \<^verbatim>\<open>argparse\<close> cuts the words of the command line into options and values, and
  the option \<^verbatim>\<open>-h\<close>, are not modelled.
\<close>

record command_line =
  given_hostname :: "string list"
  given_port :: "string list"
  given_path :: "string list"
  given_auth_type :: "string list"
  given_username :: "string list"
  given_password :: "string list"
  given_operation :: "string list"
  given_node_id :: "string list"
  given_value :: "string list"

text \<open>The value of an option: the last one given, or else the default.\<close>

definition last_given :: "'a \<Rightarrow> 'a list \<Rightarrow> 'a" where
  "last_given dflt vs = (if vs = [] then dflt else last vs)"

definition parses_as_int :: "nat \<Rightarrow> string \<Rightarrow> bool" where
  "parses_as_int max_digits v = (case py_int max_digits v of Inl ve \<Rightarrow> False | Inr n \<Rightarrow> True)"

definition int_of :: "nat \<Rightarrow> string \<Rightarrow> int" where
  "int_of max_digits v = (case py_int max_digits v of Inl ve \<Rightarrow> 0 | Inr n \<Rightarrow> n)"

text \<open>
  \<^verbatim>\<open>parser.parse_args()\<close> for the parser of lines 80 to 89. Every value is converted
  with the \<^verbatim>\<open>type\<close> of its option and checked against its \<^verbatim>\<open>choices\<close> when it is
  read, and the required options are checked at the end; each failure ends in
  \<^verbatim>\<open>parser.error\<close>, which prints the usage and raises \<^verbatim>\<open>SystemExit(2)\<close>: the result
  \<open>None\<close>. (\<open>int_of\<close> is applied only to a value that parses.)
\<close>

definition parse_args :: "nat \<Rightarrow> command_line \<Rightarrow> args option" where
  "parse_args max_digits cl =
     (if list_ex (\<lambda>v. \<not> parses_as_int max_digits v) (given_port cl) then None
      else if list_ex (\<lambda>v. v \<notin> set [''anonymous'', ''userpass'']) (given_auth_type cl) then None
      else if list_ex (\<lambda>v. v \<notin> set [''read'', ''write'']) (given_operation cl) then None
      else if given_auth_type cl = [] then None
      else if given_operation cl = [] then None
      else if given_node_id cl = [] then None
      else Some
        \<lparr> hostname = last_given ''localhost'' (given_hostname cl),
          port = last_given 4840 (map (int_of max_digits) (given_port cl)),
          path = last_given ''/freeopcua/server/'' (given_path cl),
          args_auth_type = last (given_auth_type cl),
          args_username = last_given None (map Some (given_username cl)),
          args_password = last_given None (map Some (given_password cl)),
          args_operation = last (given_operation cl),
          args_node_id = last (given_node_id cl),
          args_value = last_given None (map Some (given_value cl)) \<rparr>)"

text \<open>
  The whole block under \<^verbatim>\<open>if __name__ == "__main__"\<close>: the command line is parsed,
  and only then is the URL built and \<^verbatim>\<open>main\<close> run. \<^verbatim>\<open>SystemExit\<close> is not an
  \<^verbatim>\<open>Exception\<close>.
\<close>

definition program :: "'f python \<Rightarrow> 'f server \<Rightarrow> command_line \<Rightarrow> ('f, unit) run" where
  "program py srv cl =
     (case parse_args (int_max_str_digits py) cl of
        None \<Rightarrow> (Raise (NonException ''SystemExit(2)''), [])
      | Some a \<Rightarrow> script py srv a)"

subsection \<open>Reading a run\<close>

text \<open>The calls made on the client, in order.\<close>

definition calls :: "'f event list \<Rightarrow> 'f call list" where
  "calls t = concat (map (\<lambda>ev. case ev of Call c \<Rightarrow> [c] | Log l m \<Rightarrow> []) t)"

text \<open>The messages logged at a given level, in order.\<close>

definition logged :: "level \<Rightarrow> 'f event list \<Rightarrow> 'f message list" where
  "logged lv t =
     concat (map (\<lambda>ev. case ev of Log l m \<Rightarrow> (if l = lv then [m] else []) | Call c \<Rightarrow> []) t)"

text \<open>
  The paths through lines 30 to 39 that go on to the session: anonymous access, or
  \<^verbatim>\<open>userpass\<close> with a user name and a password that are both given and not empty.
\<close>

definition credentials_accepted :: "string \<Rightarrow> string option \<Rightarrow> string option \<Rightarrow> bool" where
  "credentials_accepted auth_type username password \<longleftrightarrow>
     auth_type = ''anonymous'' \<or> (auth_type = ''userpass'' \<and> truthy username \<and> truthy password)"

text \<open>The event \<open>a\<close> occurs in the run before the first occurrence of the event \<open>b\<close>.\<close>

definition precedes :: "'a \<Rightarrow> 'a \<Rightarrow> 'a list \<Rightarrow> bool" where
  "precedes a b t \<longleftrightarrow> b \<in> set t \<and> a \<in> set (takeWhile (\<lambda>x. x \<noteq> b) t)"

fun is_write :: "'f call \<Rightarrow> bool" where
  "is_write (Write_Value v) = True"
| "is_write c = False"

subsection \<open>Example environments\<close>

text \<open>
  An interpreter with the default digit limit. Its \<^verbatim>\<open>float\<close> is a stand-in on the
  integers: a decimal integer literal of magnitude up to \<open>2^53\<close> is the float of that
  value, as in Python, and every other string is rejected, as Python rejects the strings
  that are not numbers; the examples below use it on such strings only.
\<close>

definition python_example :: "int python" where
  "python_example =
     \<lparr> int_max_str_digits = 4300,
       float_of_str = (\<lambda>s. case py_int 0 s of
                              Inr n \<Rightarrow> (if \<bar>n\<bar> \<le> 2 ^ 53 then Some n else None)
                            | Inl ve \<Rightarrow> None),
       float_eq = (\<lambda>a b. a = b),
       float_eq_int = (\<lambda>a b. a = b) \<rparr>"

text \<open>
  A server that accepts every request, whose node has the given data type and holds 42
  until the invocation writes to it, and the written value afterwards.
\<close>

definition server_example :: "VariantType \<Rightarrow> int server" where
  "server_example data_type =
     \<lparr> new_client_result = None,
       connect_result = None,
       get_node_result = None,
       read_data_type_result = Inr data_type,
       write_value_result = (\<lambda>v. None),
       read_value_result = (\<lambda>written. case written of None \<Rightarrow> Inr (PyInt 42) | Some v \<Rightarrow> Inr v),
       disconnect_result = None \<rparr>"

text \<open>The same server when its node keeps the value 42 whatever is written to it.\<close>

definition server_stuck :: "VariantType \<Rightarrow> int server" where
  "server_stuck data_type =
     (server_example data_type) \<lparr> read_value_result := (\<lambda>written. Inr (PyInt 42)) \<rparr>"

text \<open>A server that cannot be reached: the connection attempt raises.\<close>

definition server_unreachable :: "int server" where
  "server_unreachable =
     (server_example Int32) \<lparr> connect_result := Some (OtherException ''ConnectionRefusedError'') \<rparr>"

text \<open>
  The client library where the URL has the host name \<^verbatim>\<open>[x\<close>: the constructor raises.
\<close>

definition server_rejects_url :: "int server" where
  "server_rejects_url =
     (server_example Int32)
       \<lparr> new_client_result := Some (ValueError (Library_value_error ''Invalid IPv6 URL'')) \<rparr>"

text \<open>
  Command lines: \<^verbatim>\<open>--auth-type anonymous --operation delete --node-id ns=2;i=2003\<close>, and
  \<^verbatim>\<open>--hostname [x --auth-type userpass --username operator --operation read
  --node-id ns=2;i=2003\<close>.
\<close>

definition command_line_delete :: command_line where
  "command_line_delete =
     \<lparr> given_hostname = [], given_port = [], given_path = [],
       given_auth_type = [''anonymous''], given_username = [], given_password = [],
       given_operation = [''delete''], given_node_id = [''ns=2;i=2003''], given_value = [] \<rparr>"

definition command_line_bad_host :: command_line where
  "command_line_bad_host =
     \<lparr> given_hostname = [''[x''], given_port = [], given_path = [],
       given_auth_type = [''userpass''], given_username = [''operator''], given_password = [],
       given_operation = [''read''], given_node_id = [''ns=2;i=2003''], given_value = [] \<rparr>"

text \<open>The defaults of the command line, for a read of node \<^verbatim>\<open>ns=2;i=2003\<close>.\<close>

definition args_example :: args where
  "args_example =
     \<lparr> hostname = ''localhost'', port = 4840, path = ''/freeopcua/server/'',
       args_auth_type = ''anonymous'', args_username = None, args_password = None,
       args_operation = ''read'', args_node_id = ''ns=2;i=2003'', args_value = None \<rparr>"

section \<open>Properties of the building blocks\<close>

lemma and_then_Normal [simp]: "and_then (Normal a, t) k = (fst (k a), t @ snd (k a))"
  by (simp add: and_then_def split: prod.splits)

lemma and_then_Raise [simp]: "and_then (Raise e, t) k = (Raise e, t)"
  by (simp add: and_then_def)

lemma and_then_Return [simp]: "and_then (Return, t) k = (Return, t)"
  by (simp add: and_then_def)

lemma snd_and_then:
  "snd (and_then m k) =
     snd m @ (case fst m of Normal a \<Rightarrow> snd (k a) | Raise e \<Rightarrow> [] | Return \<Rightarrow> [])"
  by (cases m) (simp split: completion.splits)

lemma snd_try_finally: "snd (try_finally body cleanup) = snd body @ snd cleanup"
  by (simp add: try_finally_def split: prod.splits completion.splits)

lemma fst_try_finally:
  "fst (try_finally body cleanup) =
     (case fst cleanup of Normal u \<Rightarrow> fst body | Raise e \<Rightarrow> Raise e | Return \<Rightarrow> Return)"
  by (simp add: try_finally_def split: prod.splits completion.splits)

lemma snd_returned: "snd (returned r) = snd r"
  by (simp add: returned_def split: prod.splits completion.splits)

lemma fst_returned:
  "fst (returned r) =
     (case fst r of Return \<Rightarrow> Normal () | Normal u \<Rightarrow> Normal u | Raise e \<Rightarrow> Raise e)"
  by (simp add: returned_def split: prod.splits completion.splits)

lemma calls_simps [simp]:
  "calls [] = []"
  "calls (Call c # t) = c # calls t"
  "calls (Log l m # t) = calls t"
  "calls (t @ t') = calls t @ calls t'"
  by (simp_all add: calls_def)

lemma logged_simps [simp]:
  "logged lv [] = []"
  "logged lv (Call c # t) = logged lv t"
  "logged lv (Log l m # t) = (if l = lv then m # logged lv t else logged lv t)"
  "logged lv (t @ t') = logged lv t @ logged lv t'"
  by (simp_all add: logged_def)

subsection \<open>The credential check and the shape of a run of \<^verbatim>\<open>main\<close>\<close>

lemma authenticate_eq:
  "authenticate auth_type username password =
     (if credentials_accepted auth_type username password then
        (Normal (), if auth_type = ''userpass''
                    then [Call (Set_User (the username)), Call (Set_Password (the password))]
                    else [])
      else (Return, [Log ERROR (if auth_type = ''userpass'' then Userpass_credentials_required
                                 else Invalid_authentication_type)]))"
  by (auto simp: authenticate_def credentials_accepted_def call_def log_def)

lemma main_constructor_raises:
  "new_client_result srv = Some e \<Longrightarrow>
     main py srv url auth_type username password operation node_id value =
       (Raise e, [Call (New_Client url)])"
  by (simp add: main_def returned_def call_def)

lemma main_trace:
  "new_client_result srv = None \<Longrightarrow>
   snd (main py srv url auth_type username password operation node_id value) =
     Call (New_Client url) # snd (authenticate auth_type username password) @
     (if credentials_accepted auth_type username password then
        snd (try_except (session py srv operation node_id value) session_handler) @
        Call Disconnect #
        (case disconnect_result srv of None \<Rightarrow> [Log INFO Disconnected] | Some e \<Rightarrow> [])
      else [])"
  by (simp add: main_def snd_returned call_def log_def snd_try_finally authenticate_eq
      split: option.splits)

lemma main_result:
  "new_client_result srv = None \<Longrightarrow>
   fst (main py srv url auth_type username password operation node_id value) =
     (if credentials_accepted auth_type username password then
        (case disconnect_result srv of
           Some e \<Rightarrow> Raise e
         | None \<Rightarrow>
             (case fst (try_except (session py srv operation node_id value) session_handler) of
                Return \<Rightarrow> Normal () | Normal u \<Rightarrow> Normal u | Raise e \<Rightarrow> Raise e))
      else Normal ())"
  by (simp add: main_def fst_returned call_def log_def fst_try_finally authenticate_eq
      split: option.splits)

subsection \<open>A property of every event carries over from the parts to the whole\<close>

lemma all_and_then:
  "list_all P (snd m) \<Longrightarrow> (\<And>a. list_all P (snd (k a))) \<Longrightarrow> list_all P (snd (and_then m k))"
  by (simp add: snd_and_then split: completion.splits)

lemma all_try_except:
  "list_all P (snd body) \<Longrightarrow> (\<And>e h. handler e = Some h \<Longrightarrow> list_all P (snd h))
     \<Longrightarrow> list_all P (snd (try_except body handler))"
  by (cases body) (auto simp: try_except_def split: completion.splits option.splits prod.splits)

lemma all_call: "P (Call c) \<Longrightarrow> list_all P (snd (call c r))"
  by (simp add: call_def split: option.splits)

lemma all_call_value: "P (Call c) \<Longrightarrow> list_all P (snd (call_value c r))"
  by (simp add: call_value_def split: sum.splits)

lemma all_log: "P (Log l m) \<Longrightarrow> list_all P (snd (log l m))"
  by (simp add: log_def)

lemma all_raise_or_value: "list_all P (snd (raise_or_value r))"
  by (simp add: raise_or_value_def split: sum.splits)

lemma all_write_handler:
  "(\<And>l m. P (Log l m)) \<Longrightarrow> write_handler e = Some h \<Longrightarrow> list_all P (snd h)"
  by (cases e) (auto simp: log_def)

lemma all_session_handler:
  "(\<And>l m. P (Log l m)) \<Longrightarrow> session_handler e = Some h \<Longrightarrow> list_all P (snd h)"
  by (cases e) (auto simp: log_def)

lemma all_convert:
  "P (Call Read_Data_Type) \<Longrightarrow> list_all P (snd (convert_value_to_node_type py srv raw))"
  unfolding convert_value_to_node_type_def
  by (intro all_and_then all_call_value) (simp_all add: all_raise_or_value)

lemma all_write_and_verify:
  assumes "\<And>l m. P (Log l m)" and "P (Call Read_Data_Type)" and "P (Call Read_Value)"
    and "\<And>v. P (Call (Write_Value v))"
  shows "list_all P (snd (write_and_verify py srv node_id raw))"
  unfolding write_and_verify_def
  by (intro all_and_then all_convert all_call all_call_value all_log assms)
     (simp add: all_log assms)

lemma all_session:
  assumes "\<And>l m. P (Log l m)" and "P (Call Connect)" and "P (Call (Get_Node node_id))"
    and "P (Call Read_Data_Type)" and "P (Call Read_Value)" and "\<And>v. P (Call (Write_Value v))"
  shows "list_all P (snd (try_except (session py srv operation node_id value) session_handler))"
proof (rule all_try_except)
  show "list_all P (snd (session py srv operation node_id value))"
    unfolding session_def
    apply (intro all_and_then all_call all_log assms)
    apply (auto intro!: all_and_then all_call all_call_value all_log all_try_except
        all_write_and_verify assms elim: all_write_handler[rotated] split: option.splits)
    done
next
  fix e and h :: "('a, unit) run"
  assume "session_handler e = Some h"
  then show "list_all P (snd h)"
    using assms(1) by (rule all_session_handler[rotated])
qed

subsection \<open>The end of a run, the order of events\<close>

lemma tail_calls [simp]:
  "calls (case d of None \<Rightarrow> [Log INFO Disconnected] | Some e \<Rightarrow> []) = []"
  by (simp split: option.splits)

lemma tail_logged:
  "logged lv (case d of None \<Rightarrow> [Log INFO Disconnected] | Some (e::exn) \<Rightarrow> []) =
     (if lv = INFO \<and> d = None then [Disconnected] else [])"
  by (simp split: option.splits)

lemma precedes_Cons: "x \<noteq> b \<Longrightarrow> x \<noteq> a \<Longrightarrow> precedes a b (x # t) = precedes a b t"
  by (auto simp: precedes_def)

lemma precedes_here: "a \<noteq> b \<Longrightarrow> b \<in> set t \<Longrightarrow> precedes a b (a # t)"
  by (auto simp: precedes_def)

lemma precedes_append: "b \<notin> set t \<Longrightarrow> a \<notin> set t \<Longrightarrow> precedes a b (t @ t') = precedes a b t'"
  by (induction t) (auto simp: precedes_def)

lemma authenticate_accepted_events:
  "credentials_accepted auth_type username password \<Longrightarrow>
     Call Connect \<notin> set (snd (authenticate auth_type username password)) \<and>
     Log l m \<notin> set (snd (authenticate auth_type username password))"
  by (simp add: authenticate_eq)

lemma network_authenticate:
  "filter is_network (calls (snd (authenticate auth_type username password))) = []"
  by (simp add: authenticate_eq)

lemma authenticate_no_disconnect:
  "Disconnect \<notin> set (calls (snd (authenticate auth_type username password)))"
  by (simp add: authenticate_eq)

lemma session_no_disconnect:
  "Disconnect \<notin>
     set (calls (snd (try_except (session py srv operation node_id value) session_handler)))"
proof -
  have "list_all (\<lambda>ev. ev \<noteq> Call Disconnect)
          (snd (try_except (session py srv operation node_id value) session_handler))"
    by (rule all_session) simp_all
  then show ?thesis
    by (auto simp: calls_def list_all_iff split: event.splits)
qed

subsection \<open>The session, case by case\<close>

lemma session_connect_fails:
  "connect_result srv = Some e \<Longrightarrow>
     session py srv operation node_id value = (Raise e, [Call Connect])"
  by (simp add: session_def call_def)

lemma handled_connect_fails:
  "connect_result srv = Some e \<Longrightarrow>
     calls (snd (try_except (session py srv operation node_id value) session_handler)) = [Connect]"
  by (cases e) (simp_all add: session_connect_fails try_except_def log_def)

lemma session_write_no_value:
  "connect_result srv = None \<Longrightarrow>
     session py srv ''write'' node_id None =
       (Return, [Call Connect, Log INFO Connected, Log ERROR Value_required_for_write])"
  by (simp add: session_def call_def log_def)

lemma session_invalid_operation:
  "connect_result srv = None \<Longrightarrow> operation \<noteq> ''read'' \<Longrightarrow> operation \<noteq> ''write'' \<Longrightarrow>
     session py srv operation node_id value =
       (Normal (), [Call Connect, Log INFO Connected, Log ERROR Invalid_operation])"
  by (simp add: session_def call_def log_def)

lemma snd_convert: "snd (convert_value_to_node_type py srv raw) = [Call Read_Data_Type]"
  by (simp add: convert_value_to_node_type_def call_value_def raise_or_value_def
      split: sum.splits)

lemma convert_unsupported:
  "read_data_type_result srv = Inr dt \<Longrightarrow>
   dt \<notin> set [Int16, Int32, Int64, Float, Double, Boolean, String] \<Longrightarrow>
   convert_value_to_node_type py srv raw =
     (Raise (ValueError (Unsupported_data_type dt)), [Call Read_Data_Type])"
  by (simp add: convert_value_to_node_type_def call_value_def)

lemma convert_parse_fails:
  "read_data_type_result srv = Inr dt \<Longrightarrow>
   (dt \<in> set [Int16, Int32, Int64] \<and> py_int (int_max_str_digits py) raw = Inl ve) \<or>
   (dt \<in> set [Float, Double] \<and> py_float py raw = Inl ve) \<Longrightarrow>
   convert_value_to_node_type py srv raw = (Raise (ValueError ve), [Call Read_Data_Type])"
  by (auto simp add: convert_value_to_node_type_def call_value_def raise_or_value_def)

lemma handled_convert_fails:
  "connect_result srv = None \<Longrightarrow> get_node_result srv = None \<Longrightarrow>
   convert_value_to_node_type py srv raw = (Raise (ValueError ve), [Call Read_Data_Type]) \<Longrightarrow>
   try_except (session py srv ''write'' node_id (Some raw)) session_handler =
     (Normal (), [Call Connect, Log INFO Connected, Call (Get_Node node_id), Call Read_Data_Type,
                  Log ERROR (Value_conversion_error ve)])"
  by (simp add: session_def write_and_verify_def call_def log_def try_except_def)

lemma conversion_error_run:
  assumes ctor: "new_client_result srv = None"
    and "credentials_accepted auth_type username password"
    and "connect_result srv = None" and "get_node_result srv = None"
    and "convert_value_to_node_type py srv raw = (Raise (ValueError ve), [Call Read_Data_Type])"
    and run: "main py srv url auth_type username password ''write'' node_id (Some raw) = (c, t)"
  shows "logged ERROR t = [Value_conversion_error ve] \<and>
         \<not> list_ex is_write (calls t) \<and>
         filter is_network (calls t) = [Connect, Read_Data_Type, Disconnect]"
proof -
  have t: "t = snd (main py srv url auth_type username password ''write'' node_id (Some raw))"
    using run by simp
  show ?thesis
    unfolding t main_trace[OF ctor]
    using assms(2-5)
    by (simp add: handled_convert_fails authenticate_eq tail_logged)
qed

lemma handled_written:
  assumes "connect_result srv = None" and "get_node_result srv = None"
    and "fst (convert_value_to_node_type py srv raw) = Normal cv"
    and "write_value_result srv cv = None"
  shows "try_except (session py srv ''write'' node_id (Some raw)) session_handler =
     (let pre = [Call Connect, Log INFO Connected, Call (Get_Node node_id), Call Read_Data_Type,
                 Log INFO (Attempting_to_write cv node_id), Call (Write_Value cv),
                 Log INFO (Updated_value node_id cv), Call Read_Value]
      in case read_value_result srv (Some cv) of
           Inr nv \<Rightarrow>
             (Normal (), pre @ [if py_eq py nv cv then Log INFO (Verified node_id nv)
                                else Log WARNING (Verification_failed cv nv)])
         | Inl (ValueError ve) \<Rightarrow> (Normal (), pre @ [Log ERROR (Value_conversion_error ve)])
         | Inl (OtherException m) \<Rightarrow>
             (Normal (), pre @ [Log ERROR (Error_while_writing (OtherException m))])
         | Inl (NonException m) \<Rightarrow> (Raise (NonException m), pre))"
proof -
  have conv: "convert_value_to_node_type py srv raw = (Normal cv, [Call Read_Data_Type])"
    using assms(3) snd_convert[of py srv raw]
    by (cases "convert_value_to_node_type py srv raw") simp
  show ?thesis
  proof (cases "read_value_result srv (Some cv)")
    case (Inr nv)
    then show ?thesis
      using assms(1,2,4)
      by (simp add: session_def write_and_verify_def conv call_def call_value_def log_def
          try_except_def)
  next
    case (Inl e)
    then show ?thesis
      using assms(1,2,4)
      by (cases e)
         (simp_all add: session_def write_and_verify_def conv call_def call_value_def log_def
            try_except_def)
  qed
qed

lemma handled_read:
  "try_except (session py srv ''read'' node_id value) session_handler =
     (case connect_result srv of
        Some e \<Rightarrow> try_except (Raise e, [Call Connect]) session_handler
      | None \<Rightarrow>
          (case get_node_result srv of
             Some e \<Rightarrow>
               try_except (Raise e, [Call Connect, Log INFO Connected, Call (Get_Node node_id)])
                 session_handler
           | None \<Rightarrow>
               (case read_value_result srv None of
                  Inl e \<Rightarrow>
                    try_except (Raise e, [Call Connect, Log INFO Connected,
                      Call (Get_Node node_id), Call Read_Value]) session_handler
                | Inr v \<Rightarrow>
                    (Normal (), [Call Connect, Log INFO Connected, Call (Get_Node node_id),
                       Call Read_Value, Log INFO (Value_of_node node_id v)]))))"
  by (simp add: session_def call_def call_value_def log_def try_except_def
      split: option.splits sum.splits)

lemma calls_handled_raise:
  "calls (snd (try_except (Raise e, t) session_handler)) = calls t"
  by (cases e) (simp_all add: try_except_def log_def)

subsection \<open>Evaluating the built-ins and the examples\<close>

lemmas int_defs =
  py_int_def is_space_def is_digit_def is_digit_or_underscore_def decimal_value_def
  digit_value_def

lemmas run_defs =
  main_def authenticate_def session_def write_and_verify_def convert_value_to_node_type_def
  call_def call_value_def log_def try_except_def try_finally_def returned_def
  raise_or_value_def py_float_def

lemmas example_defs =
  python_example_def server_example_def server_stuck_def server_unreachable_def
  server_rejects_url_def

lemma py_int_1: "py_int limit ''1'' = Inr 1"
  by (simp add: int_defs)

lemma py_int_0: "py_int limit ''0'' = Inr 0"
  by (simp add: int_defs)

lemma py_int_2: "py_int limit ''2'' = Inr 2"
  by (simp add: int_defs)

lemma py_int_17: "py_int limit ''17'' = Inr 17"
  by (simp add: int_defs)

lemma py_int_abc: "py_int limit ''abc'' = Inl (Invalid_literal_for_int ''abc'')"
  by (simp add: int_defs)

subsection \<open>The decimal form of an integer is read back by \<^verbatim>\<open>int\<close>\<close>

lemma digit_char:
  assumes "n < 10"
  shows "is_digit (''0123456789'' ! n) \<and> digit_value (''0123456789'' ! n) = int n"
proof -
  from assms have "n \<in> {0, 1, 2, 3, 4, 5, 6, 7, 8, 9}" by auto
  then show ?thesis
    by (auto simp: is_digit_def digit_value_def)
qed

lemma decimal_digits_digits: "list_all is_digit (decimal_digits n)"
proof (induction n rule: decimal_digits.induct)
  case (1 n)
  show ?case
  proof (cases "n < 10")
    case True
    then show ?thesis
      using digit_char[of n] by (subst decimal_digits.simps) simp
  next
    case False
    then show ?thesis
      using 1 digit_char[of "n mod 10"] by (subst decimal_digits.simps) simp
  qed
qed

lemma decimal_digits_not_empty: "decimal_digits n \<noteq> []"
  by (subst decimal_digits.simps) simp

lemma decimal_value_snoc: "decimal_value (ds @ [c]) = 10 * decimal_value ds + digit_value c"
  by (simp add: decimal_value_def)

lemma decimal_value_digits: "decimal_value (decimal_digits n) = int n"
proof (induction n rule: decimal_digits.induct)
  case (1 n)
  show ?case
  proof (cases "n < 10")
    case True
    then show ?thesis
      using digit_char[of n] by (subst decimal_digits.simps) (simp add: decimal_value_def)
  next
    case False
    have split: "10 * int (n div 10) + int (n mod 10) = int n"
      by presburger
    from False show ?thesis
      using 1 digit_char[of "n mod 10"] split
      by (subst decimal_digits.simps) (simp add: decimal_value_snoc)
  qed
qed

lemma digit_is_plain:
  "is_digit c \<Longrightarrow> \<not> is_space c \<and> c \<noteq> CHR ''+'' \<and> c \<noteq> CHR ''-'' \<and> c \<noteq> CHR ''_''"
  by (auto simp: is_digit_def is_space_def)

lemma digits_no_double_underscore: "list_all is_digit ds \<Longrightarrow> \<not> double_underscore ds"
  by (induction ds rule: double_underscore.induct) (auto dest: digit_is_plain)

lemma py_int_digits:
  assumes "list_all is_digit ds" and "ds \<noteq> []"
  shows "py_int 0 ds = Inr (decimal_value ds)"
    and "py_int 0 (CHR ''-'' # ds) = Inr (- decimal_value ds)"
proof -
  obtain d ds' where ds: "ds = d # ds'" using assms(2) by (cases ds) auto
  have d: "is_digit d" using assms(1) ds by simp
  have all: "\<forall>c \<in> set ds. is_digit_or_underscore c"
    using assms(1) by (auto simp: list_all_iff is_digit_or_underscore_def)
  have tw: "takeWhile is_digit_or_underscore ds = ds" "dropWhile is_digit_or_underscore ds = []"
    using all by (simp_all add: takeWhile_eq_all_conv)
  have f: "filter is_digit ds = ds"
    using assms(1) by (simp add: list_all_iff)
  have l: "last ds \<noteq> CHR ''_''"
    using assms last_in_set[OF assms(2)] digit_is_plain by (auto simp: list_all_iff)
  have sp: "dropWhile is_space ds = ds"
    using d digit_is_plain[OF d] ds by simp
  have minus: "\<not> is_space CHR ''-''" by (simp add: is_space_def)
  show "py_int 0 ds = Inr (decimal_value ds)"
    using digit_is_plain[OF d] digits_no_double_underscore[OF assms(1)] l assms(2)
    by (simp add: py_int_def sp tw f Let_def) (simp add: ds)
  show "py_int 0 (CHR ''-'' # ds) = Inr (- decimal_value ds)"
    using digit_is_plain[OF d] digits_no_double_underscore[OF assms(1)] l assms(2) minus
    by (simp add: py_int_def tw f Let_def) (simp add: ds)
qed

lemma py_int_py_str_int: "py_int 0 (py_str_int n) = Inr n"
  using py_int_digits[OF decimal_digits_digits decimal_digits_not_empty]
  by (simp add: py_str_int_def decimal_value_digits)

subsection \<open>The parser rejects an operation other than read and write\<close>

lemma parse_args_invalid_operation:
  assumes "v \<in> set (given_operation cl)" and "v \<noteq> ''read''" and "v \<noteq> ''write''"
  shows "parse_args max_digits cl = None"
proof -
  have "list_ex (\<lambda>v. v \<notin> set [''read'', ''write'']) (given_operation cl)"
    using assms by (auto simp: list_ex_iff)
  then show ?thesis
    by (simp add: parse_args_def)
qed

section \<open>The claims\<close>

text \<open>
  In the theorems below a run is given as \<open>main \<dots> = (c, t)\<close>: \<open>c\<close> is the way
  \<^verbatim>\<open>main\<close> ends and \<open>t\<close> the events of the run in order.
\<close>

subsection \<open>Disconnection\<close>

text \<open>
  C1, as amended. An invocation in which the client object is constructed
  (\<^verbatim>\<open>Client(url)\<close> returns) and the credential check passes (anonymous access, or
  \<^verbatim>\<open>userpass\<close> with a non-empty user name and password) calls \<^verbatim>\<open>disconnect\<close> exactly
  once, whatever the operation is and however the session ends: with success, with a
  configuration, conversion or unsupported-type error, with a failed connection, or with
  an exception that no handler catches. An invocation in which the constructor raises or
  the credential check fails ends before the session is opened and never calls
  \<^verbatim>\<open>disconnect\<close>.
\<close>

theorem disconnect_once_after_credential_check:
  assumes run: "main py srv url auth_type username password operation node_id value = (c, t)"
  shows "count_list (calls t) Disconnect =
           (if new_client_result srv = None \<and> credentials_accepted auth_type username password
            then 1 else 0)"
proof (cases "new_client_result srv")
  case None
  have t: "t = snd (main py srv url auth_type username password operation node_id value)"
    using run by simp
  show ?thesis
    unfolding t main_trace[OF None]
    using session_no_disconnect[of py srv operation node_id "value"]
      authenticate_no_disconnect[of auth_type username password] None
    by (simp add: count_list_0_iff split: option.splits)
next
  case (Some e)
  have "t = [Call (New_Client url)]"
    using run by (simp add: main_constructor_raises[OF Some])
  then show ?thesis
    using Some by simp
qed

text \<open>
  The theorem at a run whose connection attempt fails: the error is logged and the
  client is disconnected once.
\<close>

theorem disconnect_once_after_credential_check_witness:
  "main python_example server_unreachable ''opc.tcp://localhost:4840/freeopcua/server/''
     ''anonymous'' None None ''read'' ''ns=2;i=2003'' None =
     (Normal (),
      [Call (New_Client ''opc.tcp://localhost:4840/freeopcua/server/''), Call Connect,
       Log ERROR (Error_occurred (OtherException ''ConnectionRefusedError'')),
       Call Disconnect, Log INFO Disconnected]) \<and>
   count_list
     (calls [Call (New_Client ''opc.tcp://localhost:4840/freeopcua/server/''), Call Connect,
       Log ERROR (Error_occurred (OtherException ''ConnectionRefusedError'')),
       Call Disconnect, Log INFO Disconnected :: int event]) Disconnect =
     (if new_client_result server_unreachable = None \<and>
         credentials_accepted ''anonymous'' None None then 1 else 0)"
proof -
  have run: "main python_example server_unreachable ''opc.tcp://localhost:4840/freeopcua/server/''
      ''anonymous'' None None ''read'' ''ns=2;i=2003'' None =
     (Normal (),
      [Call (New_Client ''opc.tcp://localhost:4840/freeopcua/server/''), Call Connect,
       Log ERROR (Error_occurred (OtherException ''ConnectionRefusedError'')),
       Call Disconnect, Log INFO Disconnected])"
    by (simp add: run_defs example_defs)
  show ?thesis
    using disconnect_once_after_credential_check[OF run] run by simp
qed

text \<open>
  C1 as stated fails: with \<^verbatim>\<open>--auth-type userpass --username operator\<close> and no
  password, \<^verbatim>\<open>main\<close> logs the error and returns at line 36, before the \<^verbatim>\<open>try\<close>
  whose \<^verbatim>\<open>finally\<close> disconnects; the run has no \<^verbatim>\<open>disconnect\<close> call.
\<close>

theorem disconnect_on_every_exit_path_counterexample:
  "main python_example (server_example Int32) ''opc.tcp://localhost:4840/freeopcua/server/''
     ''userpass'' (Some ''operator'') None ''read'' ''ns=2;i=2003'' None =
     (Normal (), [Call (New_Client ''opc.tcp://localhost:4840/freeopcua/server/''), Log ERROR Userpass_credentials_required]) \<and>
   count_list
     (calls (snd (main python_example (server_example Int32) ''opc.tcp://localhost:4840/freeopcua/server/''
        ''userpass'' (Some ''operator'') None ''read'' ''ns=2;i=2003'' None))) Disconnect \<noteq> 1"
  by (simp add: run_defs example_defs)

subsection \<open>Configuration errors\<close>

text \<open>
  C2, as amended. An invocation with operation \<^verbatim>\<open>write\<close> and no raw value, in which
  the client object is constructed and the credential check passes, attempts the
  connection first; the only requests it sends are the connection attempt and the
  disconnection (no node is fetched, read or written); and when the connection is
  established, the error "Value must be provided for write operation" is the one error
  logged, after the connection attempt.
\<close>

theorem write_without_value_fails_after_connect:
  assumes ctor: "new_client_result srv = None"
    and acc: "credentials_accepted auth_type username password"
    and run: "main py srv url auth_type username password ''write'' node_id None = (c, t)"
  shows "filter is_network (calls t) = [Connect, Disconnect] \<and>
         Get_Node node_id \<notin> set (calls t) \<and>
         (connect_result srv = None \<longrightarrow>
            precedes (Call Connect) (Log ERROR Value_required_for_write) t \<and>
            logged ERROR t = [Value_required_for_write])"
proof -
  have t: "t = snd (main py srv url auth_type username password ''write'' node_id None)"
    using run by simp
  show ?thesis
  proof (cases "connect_result srv")
    case None
    show ?thesis
      unfolding t main_trace[OF ctor]
      using acc authenticate_accepted_events[OF acc] None
      by (simp add: session_write_no_value try_except_def network_authenticate
          precedes_Cons precedes_append precedes_here authenticate_eq tail_logged)
  next
    case (Some e)
    show ?thesis
      unfolding t main_trace[OF ctor]
      using acc Some by (simp add: handled_connect_fails network_authenticate authenticate_eq)
  qed
qed

theorem write_without_value_fails_after_connect_witness:
  "new_client_result (server_example Int32) = None \<and>
   credentials_accepted ''anonymous'' None None \<and>
   connect_result (server_example Int32) = None \<and>
   main python_example (server_example Int32) ''opc.tcp://localhost:4840/freeopcua/server/''
     ''anonymous'' None None ''write'' ''ns=2;i=2003'' None =
     (Normal (),
      [Call (New_Client ''opc.tcp://localhost:4840/freeopcua/server/''), Call Connect, Log INFO Connected,
       Log ERROR Value_required_for_write, Call Disconnect, Log INFO Disconnected]) \<and>
   filter is_network
     (calls [Call (New_Client ''opc.tcp://localhost:4840/freeopcua/server/''), Call Connect, Log INFO Connected,
       Log ERROR Value_required_for_write, Call Disconnect, Log INFO Disconnected :: int event]) =
     [Connect, Disconnect] \<and>
   logged ERROR
     [Call (New_Client ''opc.tcp://localhost:4840/freeopcua/server/''), Call Connect, Log INFO Connected,
       Log ERROR Value_required_for_write, Call Disconnect, Log INFO Disconnected :: int event] =
     [Value_required_for_write]"
proof -
  have ctor: "new_client_result (server_example Int32) = None"
    by (simp add: example_defs)
  have acc: "credentials_accepted ''anonymous'' None None"
    by (simp add: credentials_accepted_def)
  have run: "main python_example (server_example Int32) ''opc.tcp://localhost:4840/freeopcua/server/''
      ''anonymous'' None None ''write'' ''ns=2;i=2003'' None =
     (Normal (),
      [Call (New_Client ''opc.tcp://localhost:4840/freeopcua/server/''), Call Connect, Log INFO Connected,
       Log ERROR Value_required_for_write, Call Disconnect, Log INFO Disconnected])"
    by (simp add: run_defs example_defs)
  show ?thesis
    using write_without_value_fails_after_connect[OF ctor acc run] ctor acc run
    by (simp add: example_defs)
qed

text \<open>
  C2 as stated fails: with \<^verbatim>\<open>--auth-type anonymous --operation write\<close> and no
  \<^verbatim>\<open>--value\<close>, the test at line 50 is reached only after \<^verbatim>\<open>connect\<close> at line 42 has
  returned.
\<close>

theorem write_without_value_before_connect_counterexample:
  "main python_example (server_example Int32) ''opc.tcp://localhost:4840/freeopcua/server/''
     ''anonymous'' None None ''write'' ''ns=2;i=2003'' None =
     (Normal (),
      [Call (New_Client ''opc.tcp://localhost:4840/freeopcua/server/''), Call Connect, Log INFO Connected,
       Log ERROR Value_required_for_write, Call Disconnect, Log INFO Disconnected]) \<and>
   precedes (Call Connect) (Log ERROR Value_required_for_write)
     (snd (main python_example (server_example Int32) ''opc.tcp://localhost:4840/freeopcua/server/''
        ''anonymous'' None None ''write'' ''ns=2;i=2003'' None))"
  by (simp add: run_defs example_defs precedes_def)

text \<open>
  C3. The script runs \<^verbatim>\<open>main\<close> only on what its parser accepts, and the parser
  admits the operations \<^verbatim>\<open>read\<close> and \<^verbatim>\<open>write\<close> only (line 87). A command line that
  gives any other operation ends in the parser's usage error, \<^verbatim>\<open>SystemExit(2)\<close>, before
  the client object exists: the run has no event at all, so no connection attempt and no
  read or write request.
\<close>

theorem invalid_operation_rejected_before_client:
  assumes "v \<in> set (given_operation cl)" and "v \<noteq> ''read''" and "v \<noteq> ''write''"
  shows "program py srv cl = (Raise (NonException ''SystemExit(2)''), [])"
  using parse_args_invalid_operation[OF assms] by (simp add: program_def)

theorem invalid_operation_rejected_before_client_witness:
  "''delete'' \<in> set (given_operation command_line_delete) \<and>
   ''delete'' \<noteq> ''read'' \<and> ''delete'' \<noteq> ''write'' \<and>
   program python_example (server_example Int32) command_line_delete =
     (Raise (NonException ''SystemExit(2)''), [])"
proof -
  have v: "''delete'' \<in> set (given_operation command_line_delete)"
    by (simp add: command_line_delete_def)
  have op: "''delete'' \<noteq> ''read''" "''delete'' \<noteq> ''write''"
    by simp_all
  show ?thesis
    using invalid_operation_rejected_before_client[OF v op] v by simp
qed

text \<open>
  C5, as amended. With \<^verbatim>\<open>auth_type\<close> \<^verbatim>\<open>userpass\<close> and a user name or a password that
  is missing or empty, no connection attempt and no other request is made. When the
  client object is constructed, \<^verbatim>\<open>main\<close> logs "Username and password must be provided
  for userpass authentication" and returns; when the constructor raises, its exception
  leaves \<^verbatim>\<open>main\<close> before the credentials are looked at, and nothing is logged.
\<close>

theorem userpass_without_credentials_never_connects:
  assumes "auth_type = ''userpass''" and "\<not> (truthy username \<and> truthy password)"
  shows "main py srv url auth_type username password operation node_id value =
           (case new_client_result srv of
              None \<Rightarrow>
                (Normal (), [Call (New_Client url), Log ERROR Userpass_credentials_required])
            | Some e \<Rightarrow> (Raise e, [Call (New_Client url)])) \<and>
         filter is_network
           (calls (snd (main py srv url auth_type username password operation node_id value))) =
           []"
proof (cases "new_client_result srv")
  case None
  then show ?thesis
    using assms
    by (auto simp add: main_def authenticate_eq credentials_accepted_def call_def returned_def)
next
  case (Some e)
  then show ?thesis
    by (simp add: main_constructor_raises[OF Some])
qed

theorem userpass_without_credentials_never_connects_witness:
  "\<not> (truthy (Some ''operator'') \<and> truthy (Some [])) \<and>
   new_client_result (server_example Int32) = None \<and>
   main python_example (server_example Int32) ''opc.tcp://localhost:4840/freeopcua/server/''
     ''userpass'' (Some ''operator'') (Some []) ''write'' ''ns=2;i=2003'' (Some ''17'') =
     (Normal (), [Call (New_Client ''opc.tcp://localhost:4840/freeopcua/server/''), Log ERROR Userpass_credentials_required])"
proof -
  have h: "\<not> (truthy (Some ''operator'') \<and> truthy (Some []))"
    by simp
  have ctor: "new_client_result (server_example Int32) = None"
    by (simp add: example_defs)
  show ?thesis
    using userpass_without_credentials_never_connects[OF refl h,
        of python_example "server_example Int32" "''opc.tcp://localhost:4840/freeopcua/server/''"
           "''write''" "''ns=2;i=2003''" "Some ''17''"] h ctor
    by simp
qed

text \<open>
  C5 as stated fails: with \<^verbatim>\<open>--hostname [x --auth-type userpass --username operator\<close>
  and no password, \<^verbatim>\<open>Client(url)\<close> at line 28 raises \<^verbatim>\<open>ValueError\<close> for the URL
  \<^verbatim>\<open>opc.tcp://[x:4840/freeopcua/server/\<close>; the exception leaves \<^verbatim>\<open>main\<close> before line
  30, and the error about the credentials is not logged.
\<close>

theorem userpass_configuration_error_counterexample:
  "program python_example server_rejects_url command_line_bad_host =
     (Raise (ValueError (Library_value_error ''Invalid IPv6 URL'')),
      [Call (New_Client ''opc.tcp://[x:4840/freeopcua/server/'')]) \<and>
   logged ERROR (snd (program python_example server_rejects_url command_line_bad_host)) = []"
  by (simp add: program_def parse_args_def script_def opc_ua_server_url_def py_str_int_def
      decimal_digits.simps last_given_def command_line_bad_host_def
      main_constructor_raises example_defs)

subsection \<open>Conversion\<close>

text \<open>
  C6. For a node whose reported data type is Boolean the conversion parses the raw string
  with \<^verbatim>\<open>int\<close> (base 10) and takes the truth value of the integer: \<^verbatim>\<open>"1"\<close> gives
  \<^verbatim>\<open>True\<close>, \<^verbatim>\<open>"0"\<close> gives \<^verbatim>\<open>False\<close>, and every other raw string that parses as an
  integer \<open>n\<close> is converted without error, to the truth value of \<open>n \<noteq> 0\<close>.
\<close>

theorem boolean_conversion:
  assumes "read_data_type_result srv = Inr Boolean"
  shows "convert_value_to_node_type py srv ''1'' = (Normal (PyBool True), [Call Read_Data_Type]) \<and>
         convert_value_to_node_type py srv ''0'' = (Normal (PyBool False), [Call Read_Data_Type]) \<and>
         (\<forall>raw n. py_int (int_max_str_digits py) raw = Inr n \<longrightarrow>
            convert_value_to_node_type py srv raw =
              (Normal (PyBool (n \<noteq> 0)), [Call Read_Data_Type]))"
  using assms
  by (simp add: convert_value_to_node_type_def call_value_def raise_or_value_def
      py_int_1 py_int_0)

theorem boolean_conversion_witness:
  "read_data_type_result (server_example Boolean) = Inr Boolean \<and>
   convert_value_to_node_type python_example (server_example Boolean) ''1'' =
     (Normal (PyBool True), [Call Read_Data_Type]) \<and>
   convert_value_to_node_type python_example (server_example Boolean) ''0'' =
     (Normal (PyBool False), [Call Read_Data_Type]) \<and>
   py_int (int_max_str_digits python_example) ''2'' = Inr 2 \<and>
   convert_value_to_node_type python_example (server_example Boolean) ''2'' =
     (Normal (PyBool True), [Call Read_Data_Type])"
proof -
  have h: "read_data_type_result (server_example Boolean) = Inr Boolean"
    by (simp add: example_defs)
  have p: "py_int (int_max_str_digits python_example) ''2'' = Inr 2"
    by (rule py_int_2)
  show ?thesis
    using boolean_conversion[OF h, of python_example] h p by simp
qed

text \<open>
  C4. In a write whose target node reports a data type outside the supported ones
  (\<^verbatim>\<open>Int16\<close>, \<^verbatim>\<open>Int32\<close>, \<^verbatim>\<open>Int64\<close>, \<^verbatim>\<open>Float\<close>, \<^verbatim>\<open>Double\<close>, \<^verbatim>\<open>Boolean\<close>,
  \<^verbatim>\<open>String\<close>), the conversion raises the error "Unsupported data type" that carries the
  reported type, this error is the one error logged, and no write request is sent: the
  requests are the connection attempt, the query of the data type and the disconnection.
  The run meant is one that reaches the conversion: the client object is constructed,
  the credential check passes, the connection is established and the node object is
  created.
\<close>

theorem unsupported_type_never_written:
  assumes "new_client_result srv = None"
    and "credentials_accepted auth_type username password"
    and "connect_result srv = None" and "get_node_result srv = None"
    and "read_data_type_result srv = Inr dt"
    and "dt \<notin> set [Int16, Int32, Int64, Float, Double, Boolean, String]"
    and "main py srv url auth_type username password ''write'' node_id (Some raw) = (c, t)"
  shows "convert_value_to_node_type py srv raw =
           (Raise (ValueError (Unsupported_data_type dt)), [Call Read_Data_Type]) \<and>
         logged ERROR t = [Value_conversion_error (Unsupported_data_type dt)] \<and>
         \<not> list_ex is_write (calls t) \<and>
         filter is_network (calls t) = [Connect, Read_Data_Type, Disconnect]"
  using conversion_error_run[OF assms(1-4) convert_unsupported[OF assms(5,6)] assms(7)]
    convert_unsupported[OF assms(5,6)]
  by simp

theorem unsupported_type_never_written_witness:
  "new_client_result (server_example DateTime) = None \<and>
   credentials_accepted ''anonymous'' None None \<and>
   connect_result (server_example DateTime) = None \<and>
   get_node_result (server_example DateTime) = None \<and>
   read_data_type_result (server_example DateTime) = Inr DateTime \<and>
   DateTime \<notin> set [Int16, Int32, Int64, Float, Double, Boolean, String] \<and>
   main python_example (server_example DateTime) ''opc.tcp://localhost:4840/freeopcua/server/''
     ''anonymous'' None None ''write'' ''ns=2;i=2003'' (Some ''17'') =
     (Normal (),
      [Call (New_Client ''opc.tcp://localhost:4840/freeopcua/server/''), Call Connect, Log INFO Connected, Call (Get_Node ''ns=2;i=2003''),
       Call Read_Data_Type, Log ERROR (Value_conversion_error (Unsupported_data_type DateTime)),
       Call Disconnect, Log INFO Disconnected]) \<and>
   convert_value_to_node_type python_example (server_example DateTime) ''17'' =
     (Raise (ValueError (Unsupported_data_type DateTime)), [Call Read_Data_Type]) \<and>
   \<not> list_ex is_write
     (calls [Call (New_Client ''opc.tcp://localhost:4840/freeopcua/server/''), Call Connect, Log INFO Connected, Call (Get_Node ''ns=2;i=2003''),
       Call Read_Data_Type, Log ERROR (Value_conversion_error (Unsupported_data_type DateTime)),
       Call Disconnect, Log INFO Disconnected :: int event])"
proof -
  have acc: "credentials_accepted ''anonymous'' None None"
    by (simp add: credentials_accepted_def)
  have ctor: "new_client_result (server_example DateTime) = None"
    by (simp add: example_defs)
  have srv: "connect_result (server_example DateTime) = None"
    "get_node_result (server_example DateTime) = None"
    "read_data_type_result (server_example DateTime) = Inr DateTime"
    by (simp_all add: example_defs)
  have dt: "DateTime \<notin> set [Int16, Int32, Int64, Float, Double, Boolean, String]"
    by simp
  have run: "main python_example (server_example DateTime) ''opc.tcp://localhost:4840/freeopcua/server/''
      ''anonymous'' None None ''write'' ''ns=2;i=2003'' (Some ''17'') =
     (Normal (),
      [Call (New_Client ''opc.tcp://localhost:4840/freeopcua/server/''), Call Connect, Log INFO Connected, Call (Get_Node ''ns=2;i=2003''),
       Call Read_Data_Type, Log ERROR (Value_conversion_error (Unsupported_data_type DateTime)),
       Call Disconnect, Log INFO Disconnected])"
    by (simp add: run_defs example_defs)
  show ?thesis
    using unsupported_type_never_written[OF ctor acc srv dt run] ctor acc srv run by simp
qed

text \<open>
  C7. In a write whose raw string cannot be parsed into the numeric type the node
  reports (\<^verbatim>\<open>int\<close> raises for \<^verbatim>\<open>Int16\<close>, \<^verbatim>\<open>Int32\<close>, \<^verbatim>\<open>Int64\<close>, or \<^verbatim>\<open>float\<close> raises
  for \<^verbatim>\<open>Float\<close>, \<^verbatim>\<open>Double\<close>), the \<^verbatim>\<open>ValueError\<close> of the parse is logged as "Value
  conversion error", it is the one error logged, and no write request is sent. The run
  meant is one that reaches the conversion, as in C4.
\<close>

theorem conversion_error_never_written:
  assumes "new_client_result srv = None"
    and "credentials_accepted auth_type username password"
    and "connect_result srv = None" and "get_node_result srv = None"
    and "read_data_type_result srv = Inr dt"
    and "(dt \<in> set [Int16, Int32, Int64] \<and> py_int (int_max_str_digits py) raw = Inl ve) \<or>
         (dt \<in> set [Float, Double] \<and> py_float py raw = Inl ve)"
    and "main py srv url auth_type username password ''write'' node_id (Some raw) = (c, t)"
  shows "logged ERROR t = [Value_conversion_error ve] \<and>
         \<not> list_ex is_write (calls t) \<and>
         filter is_network (calls t) = [Connect, Read_Data_Type, Disconnect]"
  using conversion_error_run[OF assms(1-4) convert_parse_fails[OF assms(5,6)] assms(7)]
  by simp

text \<open>The theorem at the raw value \<^verbatim>\<open>abc\<close>, for an \<^verbatim>\<open>Int32\<close> node and for a \<^verbatim>\<open>Double\<close> node.\<close>

theorem conversion_error_never_written_witness:
  "new_client_result (server_example Int32) = None \<and>
   new_client_result (server_example Double) = None \<and>
   py_int (int_max_str_digits python_example) ''abc'' = Inl (Invalid_literal_for_int ''abc'') \<and>
   main python_example (server_example Int32) ''opc.tcp://localhost:4840/freeopcua/server/''
     ''anonymous'' None None ''write'' ''ns=2;i=2003'' (Some ''abc'') =
     (Normal (),
      [Call (New_Client ''opc.tcp://localhost:4840/freeopcua/server/''), Call Connect, Log INFO Connected, Call (Get_Node ''ns=2;i=2003''),
       Call Read_Data_Type,
       Log ERROR (Value_conversion_error (Invalid_literal_for_int ''abc'')),
       Call Disconnect, Log INFO Disconnected]) \<and>
   py_float python_example ''abc'' = Inl (Could_not_convert_to_float ''abc'') \<and>
   main python_example (server_example Double) ''opc.tcp://localhost:4840/freeopcua/server/''
     ''anonymous'' None None ''write'' ''ns=2;i=2003'' (Some ''abc'') =
     (Normal (),
      [Call (New_Client ''opc.tcp://localhost:4840/freeopcua/server/''), Call Connect, Log INFO Connected, Call (Get_Node ''ns=2;i=2003''),
       Call Read_Data_Type,
       Log ERROR (Value_conversion_error (Could_not_convert_to_float ''abc'')),
       Call Disconnect, Log INFO Disconnected]) \<and>
   filter is_network
     (calls [Call (New_Client ''opc.tcp://localhost:4840/freeopcua/server/''), Call Connect, Log INFO Connected, Call (Get_Node ''ns=2;i=2003''),
       Call Read_Data_Type,
       Log ERROR (Value_conversion_error (Invalid_literal_for_int ''abc'')),
       Call Disconnect, Log INFO Disconnected :: int event]) =
     [Connect, Read_Data_Type, Disconnect] \<and>
   filter is_network
     (calls [Call (New_Client ''opc.tcp://localhost:4840/freeopcua/server/''), Call Connect, Log INFO Connected, Call (Get_Node ''ns=2;i=2003''),
       Call Read_Data_Type,
       Log ERROR (Value_conversion_error (Could_not_convert_to_float ''abc'')),
       Call Disconnect, Log INFO Disconnected :: int event]) =
     [Connect, Read_Data_Type, Disconnect]"
proof -
  have acc: "credentials_accepted ''anonymous'' None None"
    by (simp add: credentials_accepted_def)
  have ctor_i: "new_client_result (server_example Int32) = None"
    and ctor_d: "new_client_result (server_example Double) = None"
    by (simp_all add: example_defs)
  have srv_i: "connect_result (server_example Int32) = None"
    "get_node_result (server_example Int32) = None"
    "read_data_type_result (server_example Int32) = Inr Int32"
    by (simp_all add: example_defs)
  have srv_d: "connect_result (server_example Double) = None"
    "get_node_result (server_example Double) = None"
    "read_data_type_result (server_example Double) = Inr Double"
    by (simp_all add: example_defs)
  have p_i: "py_int (int_max_str_digits python_example) ''abc'' =
      Inl (Invalid_literal_for_int ''abc'')"
    by (rule py_int_abc)
  have p_d: "py_float python_example ''abc'' = Inl (Could_not_convert_to_float ''abc'')"
    by (simp add: py_float_def python_example_def py_int_abc)
  have fails_i:
    "(Int32 \<in> set [Int16, Int32, Int64] \<and>
        py_int (int_max_str_digits python_example) ''abc'' = Inl (Invalid_literal_for_int ''abc'')) \<or>
     (Int32 \<in> set [Float, Double] \<and>
        py_float python_example ''abc'' = Inl (Invalid_literal_for_int ''abc''))"
    using p_i by simp
  have fails_d:
    "(Double \<in> set [Int16, Int32, Int64] \<and>
        py_int (int_max_str_digits python_example) ''abc'' =
          Inl (Could_not_convert_to_float ''abc'')) \<or>
     (Double \<in> set [Float, Double] \<and>
        py_float python_example ''abc'' = Inl (Could_not_convert_to_float ''abc''))"
    using p_d by simp
  have run_i: "main python_example (server_example Int32) ''opc.tcp://localhost:4840/freeopcua/server/''
      ''anonymous'' None None ''write'' ''ns=2;i=2003'' (Some ''abc'') =
     (Normal (),
      [Call (New_Client ''opc.tcp://localhost:4840/freeopcua/server/''), Call Connect, Log INFO Connected, Call (Get_Node ''ns=2;i=2003''),
       Call Read_Data_Type,
       Log ERROR (Value_conversion_error (Invalid_literal_for_int ''abc'')),
       Call Disconnect, Log INFO Disconnected])"
    by (simp add: run_defs server_example_def p_i)
  have run_d: "main python_example (server_example Double) ''opc.tcp://localhost:4840/freeopcua/server/''
      ''anonymous'' None None ''write'' ''ns=2;i=2003'' (Some ''abc'') =
     (Normal (),
      [Call (New_Client ''opc.tcp://localhost:4840/freeopcua/server/''), Call Connect, Log INFO Connected, Call (Get_Node ''ns=2;i=2003''),
       Call Read_Data_Type,
       Log ERROR (Value_conversion_error (Could_not_convert_to_float ''abc'')),
       Call Disconnect, Log INFO Disconnected])"
    using p_d by (simp add: run_defs server_example_def)
  show ?thesis
    using conversion_error_never_written[OF ctor_i acc srv_i fails_i run_i]
      conversion_error_never_written[OF ctor_d acc srv_d fails_d run_d]
      ctor_i ctor_d p_i p_d run_i run_d
    by simp
qed

subsection \<open>Verification of a write\<close>

text \<open>
  C8. In a write whose write request succeeds, the next request is the read of the same
  node (only the log line "Updated value" lies between them), and the value read back is
  compared with the converted value by \<^verbatim>\<open>==\<close>: when they are equal "Verified" is logged
  at level INFO and no warning; when they differ "Verification failed" is logged at level
  WARNING and "Verified" is not. In both cases no error is logged and \<^verbatim>\<open>main\<close> ends as
  after any completed operation: it disconnects and returns (or raises what
  \<^verbatim>\<open>disconnect\<close> raised).
\<close>

theorem write_is_verified_by_read_back:
  assumes ctor: "new_client_result srv = None"
    and acc: "credentials_accepted auth_type username password"
    and ok: "connect_result srv = None" "get_node_result srv = None"
      "fst (convert_value_to_node_type py srv raw) = Normal cv"
      "write_value_result srv cv = None"
    and run: "main py srv url auth_type username password ''write'' node_id (Some raw) = (c, t)"
  shows "filter is_network (calls t) =
           [Connect, Read_Data_Type, Write_Value cv, Read_Value, Disconnect] \<and>
         (\<forall>nv. read_value_result srv (Some cv) = Inr nv \<longrightarrow>
            logged ERROR t = [] \<and>
            logged WARNING t = (if py_eq py nv cv then [] else [Verification_failed cv nv]) \<and>
            (Log INFO (Verified node_id nv) \<in> set t \<longleftrightarrow> py_eq py nv cv) \<and>
            c = (case disconnect_result srv of None \<Rightarrow> Normal () | Some e \<Rightarrow> Raise e))"
proof -
  have t: "t = snd (main py srv url auth_type username password ''write'' node_id (Some raw))"
    and c: "c = fst (main py srv url auth_type username password ''write'' node_id (Some raw))"
    using run by simp_all
  show ?thesis
    unfolding t c main_trace[OF ctor] main_result[OF ctor] handled_written[OF ok]
    using acc
    by (auto simp add: authenticate_eq tail_logged Let_def
        split: sum.splits exn.splits option.splits)
qed

text \<open>
  The theorem at the write of \<^verbatim>\<open>17\<close> to an \<^verbatim>\<open>Int32\<close> node: on a server that stores
  the value, and on one whose node keeps 42.
\<close>

theorem write_is_verified_by_read_back_witness:
  "new_client_result (server_example Int32) = None \<and>
   new_client_result (server_stuck Int32) = None \<and>
   fst (convert_value_to_node_type python_example (server_example Int32) ''17'') =
     Normal (PyInt 17) \<and>
   read_value_result (server_example Int32) (Some (PyInt 17)) = Inr (PyInt 17) \<and>
   py_eq python_example (PyInt 17) (PyInt 17) \<and>
   main python_example (server_example Int32) ''opc.tcp://localhost:4840/freeopcua/server/''
     ''anonymous'' None None ''write'' ''ns=2;i=2003'' (Some ''17'') =
     (Normal (),
      [Call (New_Client ''opc.tcp://localhost:4840/freeopcua/server/''), Call Connect, Log INFO Connected, Call (Get_Node ''ns=2;i=2003''),
       Call Read_Data_Type, Log INFO (Attempting_to_write (PyInt 17) ''ns=2;i=2003''),
       Call (Write_Value (PyInt 17)), Log INFO (Updated_value ''ns=2;i=2003'' (PyInt 17)),
       Call Read_Value, Log INFO (Verified ''ns=2;i=2003'' (PyInt 17)),
       Call Disconnect, Log INFO Disconnected]) \<and>
   read_value_result (server_stuck Int32) (Some (PyInt 17)) = Inr (PyInt 42) \<and>
   \<not> py_eq python_example (PyInt 42) (PyInt 17) \<and>
   main python_example (server_stuck Int32) ''opc.tcp://localhost:4840/freeopcua/server/''
     ''anonymous'' None None ''write'' ''ns=2;i=2003'' (Some ''17'') =
     (Normal (),
      [Call (New_Client ''opc.tcp://localhost:4840/freeopcua/server/''), Call Connect, Log INFO Connected, Call (Get_Node ''ns=2;i=2003''),
       Call Read_Data_Type, Log INFO (Attempting_to_write (PyInt 17) ''ns=2;i=2003''),
       Call (Write_Value (PyInt 17)), Log INFO (Updated_value ''ns=2;i=2003'' (PyInt 17)),
       Call Read_Value, Log WARNING (Verification_failed (PyInt 17) (PyInt 42)),
       Call Disconnect, Log INFO Disconnected]) \<and>
   logged WARNING
     [Call (New_Client ''opc.tcp://localhost:4840/freeopcua/server/''), Call Connect, Log INFO Connected, Call (Get_Node ''ns=2;i=2003''),
       Call Read_Data_Type, Log INFO (Attempting_to_write (PyInt 17) ''ns=2;i=2003''),
       Call (Write_Value (PyInt 17)), Log INFO (Updated_value ''ns=2;i=2003'' (PyInt 17)),
       Call Read_Value, Log WARNING (Verification_failed (PyInt 17) (PyInt 42)),
       Call Disconnect, Log INFO Disconnected :: int event] =
     [Verification_failed (PyInt 17) (PyInt 42)]"
proof -
  have acc: "credentials_accepted ''anonymous'' None None"
    by (simp add: credentials_accepted_def)
  have ctor: "new_client_result (server_example Int32) = None"
    and ctor': "new_client_result (server_stuck Int32) = None"
    by (simp_all add: example_defs)
  have ok: "connect_result (server_example Int32) = None"
    "get_node_result (server_example Int32) = None"
    "fst (convert_value_to_node_type python_example (server_example Int32) ''17'') =
       Normal (PyInt 17)"
    "write_value_result (server_example Int32) (PyInt 17) = None"
    by (simp_all add: example_defs convert_value_to_node_type_def call_value_def
        raise_or_value_def py_int_17)
  have ok': "connect_result (server_stuck Int32) = None"
    "get_node_result (server_stuck Int32) = None"
    "fst (convert_value_to_node_type python_example (server_stuck Int32) ''17'') =
       Normal (PyInt 17)"
    "write_value_result (server_stuck Int32) (PyInt 17) = None"
    by (simp_all add: example_defs convert_value_to_node_type_def call_value_def
        raise_or_value_def py_int_17)
  have run: "main python_example (server_example Int32) ''opc.tcp://localhost:4840/freeopcua/server/''
      ''anonymous'' None None ''write'' ''ns=2;i=2003'' (Some ''17'') =
     (Normal (),
      [Call (New_Client ''opc.tcp://localhost:4840/freeopcua/server/''), Call Connect, Log INFO Connected, Call (Get_Node ''ns=2;i=2003''),
       Call Read_Data_Type, Log INFO (Attempting_to_write (PyInt 17) ''ns=2;i=2003''),
       Call (Write_Value (PyInt 17)), Log INFO (Updated_value ''ns=2;i=2003'' (PyInt 17)),
       Call Read_Value, Log INFO (Verified ''ns=2;i=2003'' (PyInt 17)),
       Call Disconnect, Log INFO Disconnected])"
    by (simp add: run_defs example_defs py_int_17)
  have run': "main python_example (server_stuck Int32) ''opc.tcp://localhost:4840/freeopcua/server/''
      ''anonymous'' None None ''write'' ''ns=2;i=2003'' (Some ''17'') =
     (Normal (),
      [Call (New_Client ''opc.tcp://localhost:4840/freeopcua/server/''), Call Connect, Log INFO Connected, Call (Get_Node ''ns=2;i=2003''),
       Call Read_Data_Type, Log INFO (Attempting_to_write (PyInt 17) ''ns=2;i=2003''),
       Call (Write_Value (PyInt 17)), Log INFO (Updated_value ''ns=2;i=2003'' (PyInt 17)),
       Call Read_Value, Log WARNING (Verification_failed (PyInt 17) (PyInt 42)),
       Call Disconnect, Log INFO Disconnected])"
    by (simp add: run_defs example_defs py_int_17)
  show ?thesis
    using write_is_verified_by_read_back[OF ctor acc ok run]
      write_is_verified_by_read_back[OF ctor' acc ok' run'] ctor ctor' ok(3) run run'
    by (simp add: example_defs)
qed

subsection \<open>The connection URL\<close>

text \<open>
  C9. For every host name, port and path of the parsed command line, the URL that the
  script computes is the concatenation of \<^verbatim>\<open>opc.tcp://\<close>, the host name, a colon, the
  decimal form of the port (the string that \<^verbatim>\<open>int\<close> reads back as the port) and the
  path, and it is the URL the client object is created with, which is the first call of
  the run.
\<close>

theorem connection_url_composition:
  "opc_ua_server_url a = ''opc.tcp://'' @ hostname a @ '':'' @ py_str_int (port a) @ path a \<and>
   py_int 0 (py_str_int (port a)) = Inr (port a) \<and>
   hd (calls (snd (script py srv a))) =
     New_Client (''opc.tcp://'' @ hostname a @ '':'' @ py_str_int (port a) @ path a)"
proof (cases "new_client_result srv")
  case None
  then show ?thesis
    by (simp add: script_def main_trace opc_ua_server_url_def py_int_py_str_int)
next
  case (Some e)
  then show ?thesis
    by (simp add: script_def main_constructor_raises opc_ua_server_url_def py_int_py_str_int)
qed

text \<open>With the defaults of the command line the URL is the one of a local server.\<close>

theorem connection_url_composition_witness:
  "opc_ua_server_url args_example = ''opc.tcp://localhost:4840/freeopcua/server/'' \<and>
   py_str_int (port args_example) = ''4840'' \<and>
   hd (calls (snd (script python_example (server_example Int32) args_example))) =
     New_Client ''opc.tcp://localhost:4840/freeopcua/server/''"
  using connection_url_composition[of args_example python_example "server_example Int32"]
  by (simp add: args_example_def py_str_int_def decimal_digits.simps)

subsection \<open>Reading\<close>

text \<open>
  C10. An invocation with operation \<^verbatim>\<open>read\<close> never sends a write request and never
  queries the data type of the node, which is the first thing the conversion helper
  does: the requests it sends are none (the constructor raised or the credential check
  failed), or the connection attempt and the disconnection, or these two with one read
  of the value between them.
\<close>

theorem read_never_writes:
  assumes run: "main py srv url auth_type username password ''read'' node_id value = (c, t)"
  shows "\<not> list_ex is_write (calls t) \<and> Read_Data_Type \<notin> set (calls t) \<and>
         filter is_network (calls t) \<in>
           set [[], [Connect, Disconnect], [Connect, Read_Value, Disconnect]]"
proof (cases "new_client_result srv")
  case None
  have t: "t = snd (main py srv url auth_type username password ''read'' node_id value)"
    using run by simp
  show ?thesis
    unfolding t main_trace[OF None] handled_read
    by (simp add: authenticate_eq calls_handled_raise split: option.splits sum.splits)
next
  case (Some e)
  have "t = [Call (New_Client url)]"
    using run by (simp add: main_constructor_raises[OF Some])
  then show ?thesis
    by simp
qed

theorem read_never_writes_witness:
  "main python_example (server_example Int32) ''opc.tcp://localhost:4840/freeopcua/server/''
     ''anonymous'' None None ''read'' ''ns=2;i=2003'' None =
     (Normal (),
      [Call (New_Client ''opc.tcp://localhost:4840/freeopcua/server/''), Call Connect, Log INFO Connected, Call (Get_Node ''ns=2;i=2003''),
       Call Read_Value, Log INFO (Value_of_node ''ns=2;i=2003'' (PyInt 42)),
       Call Disconnect, Log INFO Disconnected]) \<and>
   \<not> list_ex is_write
     (calls [Call (New_Client ''opc.tcp://localhost:4840/freeopcua/server/''), Call Connect, Log INFO Connected, Call (Get_Node ''ns=2;i=2003''),
       Call Read_Value, Log INFO (Value_of_node ''ns=2;i=2003'' (PyInt 42)),
       Call Disconnect, Log INFO Disconnected :: int event]) \<and>
   filter is_network
     (calls [Call (New_Client ''opc.tcp://localhost:4840/freeopcua/server/''), Call Connect, Log INFO Connected, Call (Get_Node ''ns=2;i=2003''),
       Call Read_Value, Log INFO (Value_of_node ''ns=2;i=2003'' (PyInt 42)),
       Call Disconnect, Log INFO Disconnected :: int event]) =
     [Connect, Read_Value, Disconnect]"
proof -
  have run: "main python_example (server_example Int32) ''opc.tcp://localhost:4840/freeopcua/server/''
      ''anonymous'' None None ''read'' ''ns=2;i=2003'' None =
     (Normal (),
      [Call (New_Client ''opc.tcp://localhost:4840/freeopcua/server/''), Call Connect, Log INFO Connected, Call (Get_Node ''ns=2;i=2003''),
       Call Read_Value, Log INFO (Value_of_node ''ns=2;i=2003'' (PyInt 42)),
       Call Disconnect, Log INFO Disconnected])"
    by (simp add: run_defs example_defs)
  show ?thesis
    using read_never_writes[OF run] run by simp
qed

end
